theory Spec2Isabelle
  imports Main "HOL-Library.Multiset"
begin

section \<open>Domain types (package domain)\<close>

text \<open>
  A \<open>time.Time\<close> instant is an integer (a count of clock ticks); \<open>Before\<close> and
  \<open>After\<close> are the strict order on instants. An \<open>int64\<close> identifier is an integer:
  the code never does arithmetic on identifiers. A \<open>*int64\<close> is an option.
\<close>

record comment =
  ID :: int
  ParentID :: "int option"
  Content :: string
  CreatedAt :: int
  UpdatedAt :: int

datatype CommentTree = CommentTree (Comment: comment) (Children: "CommentTree list")

record CommentFilter =
  FilterParentID :: "int option"
  Search :: string
  Page :: int
  PageSize :: int
  SortBy :: string
  Order :: string

text \<open>
  The sentinel errors of the domain package, \<open>fmt.Errorf("...: %w", err)\<close> as
  \<open>Wrapped\<close>, the runtime panic of a slice expression whose bounds are out of range, and
  the constraint violations the table of the migration can raise on insert.
\<close>

datatype error =
    ErrCommentNotFound
  | ErrInvalidParent
  | ErrEmptyContent
  | Wrapped string error
  | SliceBoundsPanic
  | ForeignKeyViolation
  | UniqueViolation

section \<open>The table \<open>comments\<close>\<close>

text \<open>
  The table is the list of its rows, in the order a scan without \<open>ORDER BY\<close> returns
  them. The database is the table together with the \<open>BIGSERIAL\<close> sequence of the
  identifier column.
\<close>

type_synonym store = "comment list"

record db =
  rows :: store
  seq :: int

definition ids :: "store \<Rightarrow> int set" where
  "ids s = ID ` set s"

text \<open>The parent-to-child edges of a record set, on identifiers.\<close>

definition edges :: "store \<Rightarrow> (int \<times> int) set" where
  "edges s = {(p, ID c) | p c. c \<in> set s \<and> ParentID c = Some p}"

text \<open>
  What the schema and the operations guarantee of the table: \<open>id\<close> is a primary key,
  \<open>parent_id\<close> references an existing row, and no row is its own ancestor.
\<close>

definition wf_store :: "store \<Rightarrow> bool" where
  "wf_store s \<longleftrightarrow>
     distinct (map ID s) \<and>
     (\<forall>c \<in> set s. \<forall>p. ParentID c = Some p \<longrightarrow> p \<in> ids s) \<and>
     acyclic (edges s)"

subsection \<open>GetByID\<close>

definition GetByID :: "store \<Rightarrow> int \<Rightarrow> error + comment" where
  "GetByID s i =
     (case filter (\<lambda>c. ID c = i) s of
        [] \<Rightarrow> Inl ErrCommentNotFound
      | c # _ \<Rightarrow> Inr c)"

subsection \<open>Create\<close>

text \<open>
  The insert of the repository: the row takes the next value of the sequence and the
  time \<open>now\<close> of the call for both timestamps. The sequence advances even when the
  insert is rejected by a constraint.
\<close>

definition repo_Create :: "int \<Rightarrow> int option \<Rightarrow> string \<Rightarrow> db \<Rightarrow> (error + comment) \<times> db" where
  "repo_Create now parentID content d =
     (let c = \<lparr>ID = seq d, ParentID = parentID, Content = content,
                CreatedAt = now, UpdatedAt = now\<rparr>;
          d' = d\<lparr>seq := seq d + 1\<rparr>
      in if seq d \<in> ids (rows d) then
           (Inl (Wrapped ''failed to create comment'' UniqueViolation), d')
         else if (case parentID of None \<Rightarrow> False | Some p \<Rightarrow> p \<notin> ids (rows d)) then
           (Inl (Wrapped ''failed to create comment'' ForeignKeyViolation), d')
         else (Inr c, d'\<lparr>rows := rows d @ [c]\<rparr>))"

text \<open>
  The use case: the content check, then the lookup of the parent, then the insert.
  \<open>GetByID\<close> returns either an error or a record, so the test \<open>parent == nil\<close> of the
  source is reached only with a record and never fires.
\<close>

definition uc_Create :: "int \<Rightarrow> int option \<Rightarrow> string \<Rightarrow> db \<Rightarrow> (error + comment) \<times> db" where
  "uc_Create now parentID content d =
     (if content = [] then (Inl ErrEmptyContent, d)
      else case parentID of
        None \<Rightarrow>
          (case repo_Create now parentID content d of
             (Inl e, d') \<Rightarrow> (Inl (Wrapped ''failed to create comment'' e), d')
           | (Inr c, d') \<Rightarrow> (Inr c, d'))
      | Some p \<Rightarrow>
          (case GetByID (rows d) p of
             Inl e \<Rightarrow> (Inl (Wrapped ''failed to get parent comment'' e), d)
           | Inr parent \<Rightarrow>
               (case repo_Create now parentID content d of
                  (Inl e, d') \<Rightarrow> (Inl (Wrapped ''failed to create comment'' e), d')
                | (Inr c, d') \<Rightarrow> (Inr c, d'))))"

section \<open>Ordering and pagination\<close>

subsection \<open>The exchange sort of the root list\<close>

text \<open>
  The two nested loops of the source, on indices: for every \<open>i\<close> and every \<open>j > i\<close>,
  the elements at \<open>i\<close> and \<open>j\<close> are exchanged when \<open>swp (xs ! i) (xs ! j)\<close> holds.
  The guard \<open>i < len - 1\<close> of the outer loop is \<open>i + 1 < length xs\<close> on naturals.
\<close>

function inner_loop :: "('a \<Rightarrow> 'a \<Rightarrow> bool) \<Rightarrow> nat \<Rightarrow> nat \<Rightarrow> 'a list \<Rightarrow> 'a list" where
  "inner_loop swp i j xs =
     (if j < length xs
      then inner_loop swp i (j + 1)
             (if swp (xs ! i) (xs ! j) then xs[i := xs ! j, j := xs ! i] else xs)
      else xs)"
  by pat_completeness auto
termination
  by (relation "measure (\<lambda>(swp, i, j, xs). length xs - j)") auto

declare inner_loop.simps [simp del]

lemma length_inner_loop [simp]: "length (inner_loop swp i j xs) = length xs"
proof (induction swp i j xs rule: inner_loop.induct)
  case (1 swp i j xs)
  show ?case
    by (subst inner_loop.simps) (use 1 in auto)
qed

function outer_loop :: "('a \<Rightarrow> 'a \<Rightarrow> bool) \<Rightarrow> nat \<Rightarrow> 'a list \<Rightarrow> 'a list" where
  "outer_loop swp i xs =
     (if i + 1 < length xs
      then outer_loop swp (i + 1) (inner_loop swp i (i + 1) xs)
      else xs)"
  by pat_completeness auto
termination
  by (relation "measure (\<lambda>(swp, i, xs). length xs - i)") auto

declare outer_loop.simps [simp del]

text \<open>
  The four branches of the source: the key is the creation or the modification time,
  the direction is descending when \<open>order\<close> is \<open>"desc"\<close> and ascending otherwise; any
  other \<open>sortBy\<close> leaves the list as it is.
\<close>

definition sortRoots :: "string \<Rightarrow> string \<Rightarrow> comment list \<Rightarrow> comment list" where
  "sortRoots sortBy order rootComments =
     (if sortBy = ''created_at'' then
        (if order = ''desc''
         then outer_loop (\<lambda>a b. CreatedAt a < CreatedAt b) 0 rootComments
         else outer_loop (\<lambda>a b. CreatedAt a > CreatedAt b) 0 rootComments)
      else if sortBy = ''updated_at'' then
        (if order = ''desc''
         then outer_loop (\<lambda>a b. UpdatedAt a < UpdatedAt b) 0 rootComments
         else outer_loop (\<lambda>a b. UpdatedAt a > UpdatedAt b) 0 rootComments)
      else rootComments)"

subsection \<open>Pagination\<close>

text \<open>
  \<open>int\<close> is the 64-bit signed integer of the targets the service is built for: the
  result of an arithmetic operation wraps around.
\<close>

definition wrap64 :: "int \<Rightarrow> int" where
  "wrap64 x = (x + 2 ^ 63) mod 2 ^ 64 - 2 ^ 63"

text \<open>
  The slice expressions \<open>s[start:]\<close> and \<open>s[start:end]\<close> panic unless
  \<open>0 \<le> start \<le> end \<le> len\<close>.
\<close>

definition paginate :: "int \<Rightarrow> int \<Rightarrow> 'a list \<Rightarrow> error + 'a list" where
  "paginate page pageSize sortedRoots =
     (let start = wrap64 (wrap64 (page - 1) * pageSize);
          end' = wrap64 (start + pageSize);
          len = int (length sortedRoots)
      in if start \<ge> len then Inr []
         else if end' > len then
           (if 0 \<le> start then Inr (drop (nat start) sortedRoots) else Inl SliceBoundsPanic)
         else
           (if 0 \<le> start \<and> start \<le> end'
            then Inr (take (nat end' - nat start) (drop (nat start) sortedRoots))
            else Inl SliceBoundsPanic))"

section \<open>Tree assembly\<close>

text \<open>
  \<open>comments\<close> is a Go map from identifier to record, filled row by row: a later row
  with the identifier of an earlier one replaces it. The map is the list of its values.
\<close>

definition map_insert :: "comment \<Rightarrow> comment list \<Rightarrow> comment list" where
  "map_insert c m =
     (if ID c \<in> ID ` set m then map (\<lambda>d. if ID d = ID c then c else d) m else m @ [c])"

definition rows_to_map :: "comment list \<Rightarrow> comment list" where
  "rows_to_map rs = fold map_insert rs []"

text \<open>
  The order in which a \<open>range\<close> over a map visits its entries is chosen by the Go
  runtime anew for every loop. The choice is a parameter \<open>rng\<close> of the model: given the
  identifier of the node whose loop it is and the values of the map, it returns them in
  the order of the visit.
\<close>

definition rng_ok :: "(int \<Rightarrow> comment list \<Rightarrow> comment list) \<Rightarrow> bool" where
  "rng_ok rng \<longleftrightarrow> (\<forall>i xs. mset (rng i xs) = mset xs)"

text \<open>
  \<open>buildTree\<close> recurses into every entry of the map whose parent is the current node.
  The fuel bounds the depth of the recursion; without fuel left the function has no
  result, as the source has none when the recursion does not end.
\<close>

fun buildTree :: "nat \<Rightarrow> (int \<Rightarrow> comment list \<Rightarrow> comment list) \<Rightarrow> comment list \<Rightarrow> comment
    \<Rightarrow> CommentTree option" where
  "buildTree 0 rng allComments c = None"
| "buildTree (Suc n) rng allComments c =
     map_option (CommentTree c)
       (those (map (buildTree n rng allComments)
          (filter (\<lambda>d. ParentID d = Some (ID c)) (rng (ID c) allComments))))"

text \<open>The records of a tree, the node before its subtrees.\<close>

fun flatten :: "CommentTree \<Rightarrow> comment list" where
  "flatten (CommentTree c ts) = c # concat (map flatten ts)"

section \<open>Recursive queries\<close>

text \<open>
  \<open>WITH RECURSIVE comment_tree\<close>: the rows with the given identifier, then, round after
  round, the rows of the table that join the rows of the previous round on
  \<open>c.parent_id = ct.id\<close>, until a round is empty (\<open>UNION ALL\<close> keeps every row). The
  query does not return on a table with a cycle below the start; the model gives it one
  round more than the table has rows and has no result after that.
\<close>

definition join_children :: "store \<Rightarrow> comment list \<Rightarrow> comment list" where
  "join_children s work =
     concat (map (\<lambda>ct. filter (\<lambda>c. ParentID c = Some (ID ct)) s) work)"

fun comment_tree_rec :: "nat \<Rightarrow> store \<Rightarrow> comment list \<Rightarrow> comment list option" where
  "comment_tree_rec fuel s [] = Some []"
| "comment_tree_rec 0 s (w # ws) = None"
| "comment_tree_rec (Suc n) s (w # ws) =
     map_option ((@) (w # ws)) (comment_tree_rec n s (join_children s (w # ws)))"

definition comment_tree :: "store \<Rightarrow> int \<Rightarrow> comment list option" where
  "comment_tree s i = comment_tree_rec (Suc (length s)) s (filter (\<lambda>c. ID c = i) s)"

text \<open>
  \<open>WITH RECURSIVE comment_path\<close> of \<open>findRootComment\<close>: the same scheme upwards, the
  join is on \<open>c.id = cp.parent_id\<close>.
\<close>

definition join_parent :: "store \<Rightarrow> comment list \<Rightarrow> comment list" where
  "join_parent s work =
     concat (map (\<lambda>cp. filter (\<lambda>c. Some (ID c) = ParentID cp) s) work)"

fun comment_path_rec :: "nat \<Rightarrow> store \<Rightarrow> comment list \<Rightarrow> comment list option" where
  "comment_path_rec fuel s [] = Some []"
| "comment_path_rec 0 s (w # ws) = None"
| "comment_path_rec (Suc n) s (w # ws) =
     map_option ((@) (w # ws)) (comment_path_rec n s (join_parent s (w # ws)))"

definition comment_path :: "store \<Rightarrow> int \<Rightarrow> comment list option" where
  "comment_path s i = comment_path_rec (Suc (length s)) s (filter (\<lambda>c. ID c = i) s)"

text \<open>
  \<open>findRootComment\<close>: the first row of the path without a parent; when the query yields
  no row, the identifier that was asked for.
\<close>

definition findRootComment :: "store \<Rightarrow> int \<Rightarrow> int option" where
  "findRootComment s commentID =
     (case comment_path s commentID of
        None \<Rightarrow> None
      | Some path \<Rightarrow>
          (case filter (\<lambda>c. ParentID c = None) path of
             [] \<Rightarrow> Some commentID
           | r # _ \<Rightarrow> Some (ID r)))"

section \<open>The repository\<close>

text \<open>
  The results of the operations that run a recursive query or build a tree are options:
  \<open>None\<close> when the operation does not return. Failures of the connection to the
  database are outside the model.
\<close>

definition order_by :: "string \<Rightarrow> string \<Rightarrow> comment list \<Rightarrow> comment list" where
  "order_by sortBy order rs =
     (let key = (if sortBy = ''created_at'' then CreatedAt else UpdatedAt)
      in if order = ''asc'' then sort_key key rs else rev (sort_key key rs))"

definition norm_sortBy :: "string \<Rightarrow> string" where
  "norm_sortBy sortBy =
     (if sortBy \<noteq> ''created_at'' \<and> sortBy \<noteq> ''updated_at'' then ''created_at'' else sortBy)"

definition norm_order :: "string \<Rightarrow> string" where
  "norm_order order = (if order \<noteq> ''asc'' \<and> order \<noteq> ''desc'' then ''desc'' else order)"

text \<open>
  \<open>GetTree\<close> of the repository. The normalised \<open>sortBy\<close> and \<open>order\<close> go into the
  \<open>ORDER BY\<close> of the subtree query only; the sort of the roots reads the fields of the
  filter as they came.
\<close>

definition repo_GetTree :: "(int \<Rightarrow> comment list \<Rightarrow> comment list) \<Rightarrow> int option \<Rightarrow> CommentFilter
    \<Rightarrow> store \<Rightarrow> (error + CommentTree list) option" where
  "repo_GetTree rng parentID flt s =
     (let sortBy = norm_sortBy (SortBy flt);
          order = norm_order (Order flt)
      in case (case parentID of
                 None \<Rightarrow> Some s
               | Some p \<Rightarrow> map_option (order_by sortBy order) (comment_tree s p)) of
           None \<Rightarrow> None
         | Some rs \<Rightarrow>
             (let comments = rows_to_map rs;
                  rootComments = filter (\<lambda>c. ParentID c = None) rs;
                  sortedRoots = sortRoots (SortBy flt) (Order flt) rootComments
              in case paginate (Page flt) (PageSize flt) sortedRoots of
                   Inl e \<Rightarrow> Some (Inl e)
                 | Inr page \<Rightarrow>
                     map_option Inr
                       (those (map (buildTree (Suc (length comments)) rng comments) page))))"

text \<open>
  \<open>Search\<close> of the repository. \<open>ilike content pattern\<close> is the operator \<open>ILIKE\<close> of the
  database, a parameter of the model.
\<close>

definition search_rootIDs :: "(string \<Rightarrow> string \<Rightarrow> bool) \<Rightarrow> string \<Rightarrow> store \<Rightarrow> int list option" where
  "search_rootIDs ilike query s =
     those (map (\<lambda>c. if ParentID c \<noteq> None then findRootComment s (ID c) else Some (ID c))
       (filter (\<lambda>c. ilike (Content c) (''%'' @ query @ ''%'')) s))"

definition repo_Search :: "(string \<Rightarrow> string \<Rightarrow> bool) \<Rightarrow> (int \<Rightarrow> comment list \<Rightarrow> comment list)
    \<Rightarrow> string \<Rightarrow> CommentFilter \<Rightarrow> store \<Rightarrow> (error + CommentTree list) option" where
  "repo_Search ilike rng query flt s =
     (let sortBy = norm_sortBy (SortBy flt);
          order = norm_order (Order flt)
      in case search_rootIDs ilike query s of
           None \<Rightarrow> None
         | Some rootIDs \<Rightarrow>
             if rootIDs = [] then Some (Inr [])
             else
               (let allComments = rows_to_map s;
                    rootComments = filter (\<lambda>c. ParentID c = None \<and> ID c \<in> set rootIDs) s;
                    sortedRoots = sortRoots sortBy order rootComments
                in case paginate (Page flt) (PageSize flt) sortedRoots of
                     Inl e \<Rightarrow> Some (Inl e)
                   | Inr page \<Rightarrow>
                       map_option Inr
                         (those (map (buildTree (Suc (length allComments)) rng allComments)
                            page))))"

text \<open>
  \<open>Delete\<close> of the repository: one statement removes the rows whose identifier the
  recursive query returns. (The rows that \<open>ON DELETE CASCADE\<close> would remove after them
  reference a removed row, and are rows of the query already.)
\<close>

definition repo_Delete :: "int \<Rightarrow> db \<Rightarrow> db option" where
  "repo_Delete i d =
     (case comment_tree (rows d) i of
        None \<Rightarrow> None
      | Some sub \<Rightarrow> Some (d\<lparr>rows := filter (\<lambda>c. ID c \<notin> ID ` set sub) (rows d)\<rparr>))"

definition repo_Count :: "(string \<Rightarrow> string \<Rightarrow> bool) \<Rightarrow> int option \<Rightarrow> string \<Rightarrow> store
    \<Rightarrow> int option" where
  "repo_Count ilike parentID search s =
     (if search \<noteq> [] then
        Some (int (length (remdups (map ID
          (filter (\<lambda>c. ilike (Content c) (''%'' @ search @ ''%'')) s)))))
      else case parentID of
        None \<Rightarrow> Some (int (length (filter (\<lambda>c. ParentID c = None) s)))
      | Some p \<Rightarrow> map_option (\<lambda>rs. int (length rs)) (comment_tree s p))"

section \<open>The use cases\<close>

definition normalize :: "CommentFilter \<Rightarrow> CommentFilter" where
  "normalize flt =
     (let f1 = (if Page flt \<le> 0 then flt\<lparr>Page := 1\<rparr> else flt);
          f2 = (if PageSize f1 \<le> 0 then f1\<lparr>PageSize := 50\<rparr> else f1);
          f3 = (if SortBy f2 = [] then f2\<lparr>SortBy := ''created_at''\<rparr> else f2);
          f4 = (if Order f3 = [] then f3\<lparr>Order := ''desc''\<rparr> else f3)
      in f4)"

definition uc_GetTree :: "(string \<Rightarrow> string \<Rightarrow> bool) \<Rightarrow> (int \<Rightarrow> comment list \<Rightarrow> comment list)
    \<Rightarrow> CommentFilter \<Rightarrow> store \<Rightarrow> (error + CommentTree list) option" where
  "uc_GetTree ilike rng flt s =
     (let f = normalize flt
      in if Search f \<noteq> [] then repo_Search ilike rng (Search f) f s
         else repo_GetTree rng (FilterParentID f) f s)"

definition uc_Delete :: "int \<Rightarrow> db \<Rightarrow> ((error + unit) \<times> db) option" where
  "uc_Delete i d =
     (case GetByID (rows d) i of
        Inl e \<Rightarrow> Some (Inl (Wrapped ''failed to get comment'' e), d)
      | Inr c \<Rightarrow>
          (case repo_Delete i d of
             None \<Rightarrow> None
           | Some d' \<Rightarrow> Some (Inr (), d')))"

definition uc_GetTotalCount :: "(string \<Rightarrow> string \<Rightarrow> bool) \<Rightarrow> int option \<Rightarrow> string \<Rightarrow> store
    \<Rightarrow> int option" where
  "uc_GetTotalCount ilike parentID search s = repo_Count ilike parentID search s"

section \<open>Default normalisation\<close>

text \<open>
  C4. The use case \<open>GetTree\<close> replaces a page that is zero or negative by 1, a page size
  that is zero or negative by 50, an empty sort key by \<open>created_at\<close> and an empty
  direction by \<open>desc\<close>, leaves the other fields as they are, and hands the filter so
  normalised to \<open>Search\<close> or to \<open>GetTree\<close> of the repository.
\<close>

theorem uc_GetTree_normalizes:
  "Page (normalize f) = (if Page f \<le> 0 then 1 else Page f) \<and>
   PageSize (normalize f) = (if PageSize f \<le> 0 then 50 else PageSize f) \<and>
   SortBy (normalize f) = (if SortBy f = [] then ''created_at'' else SortBy f) \<and>
   Order (normalize f) = (if Order f = [] then ''desc'' else Order f) \<and>
   Search (normalize f) = Search f \<and>
   FilterParentID (normalize f) = FilterParentID f \<and>
   uc_GetTree ilike rng f s =
     (if Search f \<noteq> [] then repo_Search ilike rng (Search f) (normalize f) s
      else repo_GetTree rng (FilterParentID f) (normalize f) s)"
  by (simp add: normalize_def uc_GetTree_def Let_def)

end
